theory Spec2Isabelle
  imports Complex_Main
begin

section \<open>Strings and numbers of the host language\<close>

text \<open>
  The repository is TypeScript. A \<open>string\<close> is modelled as a list of bytes (all the
  strings the verified functions inspect are ASCII: hexadecimal addresses, tier names,
  recommendation words). A \<open>number\<close> is modelled as an exact rational; \<open>Math.round\<close>
  rounds half-way cases towards plus infinity, \<open>undefined\<close> is \<open>None\<close>.
\<close>

definition lower_char :: "char \<Rightarrow> char" where
  "lower_char c =
     (case map_of (zip ''ABCDEFGHIJKLMNOPQRSTUVWXYZ'' ''abcdefghijklmnopqrstuvwxyz'') c of
        None \<Rightarrow> c
      | Some d \<Rightarrow> d)"

definition toLowerCase :: "string \<Rightarrow> string" where
  "toLowerCase s = map lower_char s"

definition upper_char :: "char \<Rightarrow> char" where
  "upper_char c =
     (case map_of (zip ''abcdefghijklmnopqrstuvwxyz'' ''ABCDEFGHIJKLMNOPQRSTUVWXYZ'') c of
        None \<Rightarrow> c
      | Some d \<Rightarrow> d)"

definition toUpperCase :: "string \<Rightarrow> string" where
  "toUpperCase s = map upper_char s"

definition js_round :: "rat \<Rightarrow> int" where
  "js_round x = \<lfloor>x + 1 / 2\<rfloor>"

text \<open>JavaScript truthiness of an optional string, and \<open>a || b\<close> on two of them.\<close>

definition truthy :: "string option \<Rightarrow> bool" where
  "truthy v = (case v of None \<Rightarrow> False | Some s \<Rightarrow> s \<noteq> [])"


text \<open>\<open>v || d\<close> where \<open>d\<close> is a string literal.\<close>

definition str_or :: "string option \<Rightarrow> string \<Rightarrow> string" where
  "str_or v d = (case v of None \<Rightarrow> d | Some s \<Rightarrow> if s = [] then d else s)"


section \<open>Tiers\<close>

text \<open>\<open>agent/types.ts\<close>: \<open>type ReputationTier = "BUILDER" | "CONTRIBUTOR" | "LEADER"\<close>.\<close>

datatype ReputationTier = BUILDER | CONTRIBUTOR | LEADER

fun tier_name :: "ReputationTier \<Rightarrow> string" where
  "tier_name BUILDER = ''BUILDER''"
| "tier_name CONTRIBUTOR = ''CONTRIBUTOR''"
| "tier_name LEADER = ''LEADER''"


section \<open>Badge token identifiers\<close>

text \<open>
  \<open>Buffer.from(s).toString("hex")\<close>: two lower-case hexadecimal digits per byte.
\<close>

definition hex_digit :: "nat \<Rightarrow> char" where
  "hex_digit n = (''0123456789abcdef'' ! (n mod 16))"

definition byte_hex :: "char \<Rightarrow> string" where
  "byte_hex c = [hex_digit (of_char c div 16), hex_digit (of_char c mod 16)]"

definition toHex :: "string \<Rightarrow> string" where
  "toHex s = concat (map byte_hex s)"

text \<open>
  \<open>BigInt("0x" + h)\<close>: the value of the hexadecimal digits \<open>h\<close>; a \<open>SyntaxError\<close>
  (\<open>None\<close>) when \<open>h\<close> is empty or holds a character that is no hexadecimal digit.
\<close>

definition hex_val :: "char \<Rightarrow> nat option" where
  "hex_val c =
     (let n = (of_char c :: nat) in
      if 48 \<le> n \<and> n \<le> 57 then Some (n - 48)
      else if 97 \<le> n \<and> n \<le> 102 then Some (n - 87)
      else if 65 \<le> n \<and> n \<le> 70 then Some (n - 55)
      else None)"

fun hex_digits_value :: "nat \<Rightarrow> string \<Rightarrow> nat option" where
  "hex_digits_value acc [] = Some acc"
| "hex_digits_value acc (c # cs) =
     (case hex_val c of None \<Rightarrow> None | Some d \<Rightarrow> hex_digits_value (16 * acc + d) cs)"

definition BigInt_hex :: "string \<Rightarrow> nat option" where
  "BigInt_hex h = (if h = [] then None else hex_digits_value 0 h)"

text \<open>
  \<open>agent/badges.ts\<close>, \<open>generateBadgeTokenId\<close>: the first 64 hexadecimal digits (32 bytes)
  of the lower-cased address followed by the tier name.
\<close>

definition generateBadgeTokenId :: "string \<Rightarrow> ReputationTier \<Rightarrow> nat option" where
  "generateBadgeTokenId userAddress tier =
     (let combined = toLowerCase userAddress @ tier_name tier;
          hash = toHex combined
      in BigInt_hex (take 64 hash))"

text \<open>
  \<open>lib/badge-minting.ts\<close>, the client-side \<open>generateBadgeTokenId\<close>: the tier is a plain
  string there, and the slice keeps 62 digits.
\<close>

definition generateBadgeTokenId_minting :: "string \<Rightarrow> string \<Rightarrow> nat option" where
  "generateBadgeTokenId_minting userAddress tier =
     (let combined = toLowerCase userAddress @ tier;
          hash = toHex combined
      in BigInt_hex (take 62 hash))"

section \<open>The on-chain execution sequence\<close>
















section \<open>The score calculator\<close>

text \<open>\<open>lib/ai-verify.ts\<close>: the verifier's opinion.\<close>

record AIVerificationResult =
  authentic :: bool
  impactScore :: rat
  qualityScore :: rat
  authenticity :: rat
  finalScore :: rat
  reasoning :: string
  keyFindings :: "string list"
  recommendation :: string
  walletVerificationBonus :: "rat option"


text \<open>\<open>lib/ai-verify.ts\<close>, \<open>calculateFinalScore\<close>.\<close>

definition calculateFinalScore :: "AIVerificationResult \<Rightarrow> rat \<Rightarrow> bool \<Rightarrow> int" where
  "calculateFinalScore aiResult baseScore walletVerified =
     (let IMPACT_DIV = 150; QUALITY_DIV = 160; AUTH_DIV = 200;
          WALLET_BONUS = 120 / 100; MAX_CAP = 3; NON_AUTH_PEN = 25 / 100
      in if finalScore aiResult = 0 \<or> recommendation aiResult = ''reject'' then 0
         else if \<not> authentic aiResult then js_round (baseScore * NON_AUTH_PEN)
         else
           (let impMult = 1 + impactScore aiResult / IMPACT_DIV;
                qulMult = 1 + qualityScore aiResult / QUALITY_DIV;
                auMult = 1 + authenticity aiResult / AUTH_DIV;
                score = baseScore * impMult * qulMult * auMult;
                score = (if walletVerified then score * WALLET_BONUS else score)
            in js_round (min score (baseScore * MAX_CAP))))"





section \<open>The advisory verifier\<close>

text \<open>\<open>Array.prototype.join\<close> and the decimal form of an integer in a template string.\<close>

fun join :: "string \<Rightarrow> string list \<Rightarrow> string" where
  "join sep [] = []"
| "join sep [x] = x"
| "join sep (x # y # ys) = x @ sep @ join sep (y # ys)"

function string_of_nat :: "nat \<Rightarrow> string" where
  "string_of_nat n =
     (if n < 10 then [''0123456789'' ! n]
      else string_of_nat (n div 10) @ [''0123456789'' ! (n mod 10)])"
  by pat_completeness auto
termination
  by (relation "measure id") auto

declare string_of_nat.simps [simp del]

definition string_of_int :: "int \<Rightarrow> string" where
  "string_of_int i = (if i < 0 then CHR ''-'' # string_of_nat (nat (- i)) else string_of_nat (nat i))"

text \<open>\<open>lib/github.ts\<close>: the activity signal handed to the verifier.\<close>

record RepoContribution =
  rp_name :: string
  rp_language :: string
  rp_stars :: int
  rp_description :: string
  isOwned :: bool
  rp_url :: string

record CeloContribution =
  repoName :: string
  cc_url :: string
  isCeloRepo :: bool
  contributionCount :: int
  isFork :: bool
  stars :: int
  cc_language :: string

record ContributionAnalysis =
  username :: string
  totalRepos :: int
  followers :: int
  languages :: "string list"
  topRepos :: "RepoContribution list"
  totalCommits :: int
  averageRepoSize :: int
  specialties :: "string list"
  celoContributions :: "CeloContribution list"
  hasCeloContribution :: bool
  celoContributionCount :: int
  detectedWallet :: "string option"
  walletFormatValid :: "bool option"
  bioContainsWallet :: "bool option"

text \<open>
  \<open>lib/ai-verify.ts\<close>, \<open>generateDefaultVerification\<close>. The average over the ecosystem
  repositories divides by their number; for an analysis that sets \<open>hasCeloContribution\<close>
  and lists no repository JavaScript computes 0/0, and the opinion carries \<open>NaN\<close> in
  \<open>qualityScore\<close> and \<open>finalScore\<close>. The rationals have no such value: that case is the
  result \<open>None\<close>. (\<open>analyzeGitHubLink\<close> sets \<open>hasCeloContribution\<close> to
  \<open>celoContributions.length > 0\<close>, so it never produces such an analysis.)
\<close>

definition generateDefaultVerification ::
  "ContributionAnalysis \<Rightarrow> string \<Rightarrow> AIVerificationResult option" where
  "generateDefaultVerification analysis type =
     (if \<not> hasCeloContribution analysis then
        Some \<lparr>authentic = True, impactScore = 0, qualityScore = 0, authenticity = 0,
              finalScore = 0,
              reasoning = ''User has no contributions to Celo ecosystem. Celo contribution history is required.'',
              keyFindings =
                [''No Celo-related repositories found'',
                 ''Requires contributions to celo, celo-org, or Celo-related projects'',
                 ''Focus areas: '' @ join '', '' (specialties analysis)],
              recommendation = ''reject'', walletVerificationBonus = None\<rparr>
      else if celoContributions analysis = [] then None
      else
        (let repoQuality =
               of_int (foldl (\<lambda>sum r. sum + min (stars r) 100) 0 (celoContributions analysis))
                 / of_nat (length (celoContributions analysis));
             commitImpact = min 100 (celoContributionCount analysis * 5);
             impactScore' =
               min 100 (of_int (followers analysis) * (15 / 10) + of_int commitImpact * (4 / 10));
             qualityScore' = min 100 (repoQuality + of_nat (length (languages analysis) * 8));
             authenticScore =
               (if celoContributionCount analysis > 0 \<and> followers analysis \<ge> 0
                then 90 else 75 :: rat);
             finalScore' =
               impactScore' * (3 / 10) + qualityScore' * (3 / 10) + authenticScore * (4 / 10)
         in Some
              \<lparr>authentic = (celoContributionCount analysis > 0),
               impactScore = of_int (js_round impactScore'),
               qualityScore = of_int (js_round qualityScore'),
               authenticity = of_int (js_round authenticScore),
               finalScore = of_int (js_round finalScore'),
               reasoning =
                 ''Celo contributor with '' @ string_of_int (celoContributionCount analysis)
                 @ '' commits across '' @ string_of_nat (length (celoContributions analysis))
                 @ '' repos. Specializes in '' @ join '', '' (specialties analysis) @ ''.'',
               keyFindings =
                 [string_of_nat (length (celoContributions analysis))
                    @ '' Celo repositories with active contributions'',
                  string_of_int (celoContributionCount analysis) @ '' commits to Celo ecosystem'',
                  ''Proficient in '' @ join '', '' (take 3 (languages analysis)),
                  string_of_int (followers analysis) @ '' community followers''],
               recommendation =
                 (if finalScore' > 70 then ''accept''
                  else if finalScore' > 50 then ''review'' else ''reject''),
               walletVerificationBonus = None\<rparr>))"

text \<open>
  The external oracle. What \<open>verifyWithAI\<close> can observe of one request: \<open>fetch\<close> rejects,
  the response is not \<open>ok\<close>, the body is no JSON, the reply has no text, the text holds
  no \<open>{...}\<close>, \<open>JSON.parse\<close> throws, or an object is parsed. Of the parsed object the
  fields that are read, each possibly missing; a field of another type than the one asked
  for is outside this model.
\<close>

record OracleJson =
  oj_authentic :: "bool option"
  oj_authenticity :: "rat option"
  oj_impactScore :: "rat option"
  oj_qualityScore :: "rat option"
  oj_finalScore :: "rat option"
  oj_reasoning :: "string option"
  oj_keyFindings :: "string list option"
  oj_recommendation :: "string option"

datatype oracle_reply =
    FetchThrows
  | NotOk
  | BodyUnreadable
  | NoContent
  | NoJsonObject
  | ParseThrows
  | Parsed OracleJson

record AIEnv =
  GEMINI_API_KEY :: "string option"
  ask_oracle :: "ContributionAnalysis \<Rightarrow> string \<Rightarrow> oracle_reply"

text \<open>\<open>x || 0\<close> on an optional number, and \<open>Math.min(100, Math.max(0, x || 0))\<close>.\<close>

definition num_or_zero :: "rat option \<Rightarrow> rat" where
  "num_or_zero v = (case v of None \<Rightarrow> 0 | Some x \<Rightarrow> x)"

definition clamp100 :: "rat option \<Rightarrow> rat" where
  "clamp100 v = min 100 (max 0 (num_or_zero v))"

text \<open>
  \<open>lib/ai-verify.ts\<close>, \<open>verifyWithAI\<close>. The second component of the result says whether
  the request to the oracle was issued.
\<close>

definition verifyWithAI ::
  "AIEnv \<Rightarrow> ContributionAnalysis \<Rightarrow> string \<Rightarrow> AIVerificationResult option \<times> bool" where
  "verifyWithAI env analysis contributionType =
     (if \<not> truthy (GEMINI_API_KEY env) then
        (generateDefaultVerification analysis contributionType, False)
      else if \<not> hasCeloContribution analysis then
        (Some \<lparr>authentic = True, impactScore = 0, qualityScore = 0, authenticity = 0,
               finalScore = 0,
               reasoning = ''User has no contributions to Celo ecosystem. Celo contribution history is required for reputation scoring.'',
               keyFindings =
                 [''No Celo-related repositories found in profile'',
                  ''Required: Contributions to celo-org, celolabs, or Celo-related projects'',
                  ''Current profile focuses on: '' @ join '', '' (specialties analysis)],
               recommendation = ''reject'', walletVerificationBonus = None\<rparr>,
         False)
      else
        (case ask_oracle env analysis contributionType of
           Parsed result \<Rightarrow>
             (Some
                \<lparr>authentic =
                   (oj_authentic result = Some True
                    \<or> (case oj_authenticity result of None \<Rightarrow> False | Some x \<Rightarrow> x > 50)),
                 impactScore = clamp100 (oj_impactScore result),
                 qualityScore = clamp100 (oj_qualityScore result),
                 authenticity = clamp100 (oj_authenticity result),
                 finalScore = clamp100 (oj_finalScore result),
                 reasoning =
                   str_or (oj_reasoning result) ''Analysis completed'',
                 keyFindings =
                   (case oj_keyFindings result of None \<Rightarrow> [] | Some ks \<Rightarrow> ks),
                 recommendation =
                   str_or (oj_recommendation result) ''review'',
                 walletVerificationBonus = None\<rparr>,
              True)
         | _ \<Rightarrow> (generateDefaultVerification analysis contributionType, True)))"













text \<open>Concrete signals and oracles used to run the verifier on examples.\<close>

definition celo_repo :: "string \<Rightarrow> int \<Rightarrow> int \<Rightarrow> CeloContribution" where
  "celo_repo name commits st =
     \<lparr>repoName = name, cc_url = ''https://github.com/celo-org/'' @ name, isCeloRepo = True,
      contributionCount = commits, isFork = False, stars = st, cc_language = ''TypeScript''\<rparr>"

definition analysis_of ::
  "int \<Rightarrow> string list \<Rightarrow> CeloContribution list \<Rightarrow> ContributionAnalysis" where
  "analysis_of fol langs repos =
     \<lparr>username = ''alice'', totalRepos = 12, followers = fol, languages = langs,
      topRepos = [], totalCommits = 40, averageRepoSize = 300,
      specialties = [''Web Development''], celoContributions = repos,
      hasCeloContribution = (repos \<noteq> []),
      celoContributionCount = sum_list (map contributionCount repos),
      detectedWallet = Some ''0x52908400098527886E0F7030069857D2E4169EE7'',
      walletFormatValid = Some True, bioContainsWallet = Some True\<rparr>"

definition analysis_no_repos :: ContributionAnalysis where
  "analysis_no_repos = analysis_of 100 [''TypeScript''] []"

definition analysis_zero_commits :: ContributionAnalysis where
  "analysis_zero_commits =
     analysis_of 100 [''TypeScript'', ''Go'', ''Rust'', ''Python'', ''Solidity'']
       [celo_repo ''celo-monorepo'' 0 100]"


definition env_no_key :: AIEnv where
  "env_no_key = \<lparr>GEMINI_API_KEY = None, ask_oracle = (\<lambda>a t. FetchThrows)\<rparr>"

definition oracle_json_accept :: OracleJson where
  "oracle_json_accept =
     \<lparr>oj_authentic = Some True, oj_authenticity = Some 95, oj_impactScore = Some 80,
      oj_qualityScore = Some 70, oj_finalScore = Some 82,
      oj_reasoning = Some ''Genuine contributor'', oj_keyFindings = Some [],
      oj_recommendation = Some ''accept''\<rparr>"

definition env_oracle_accepts :: AIEnv where
  "env_oracle_accepts =
     \<lparr>GEMINI_API_KEY = Some ''key'', ask_oracle = (\<lambda>a t. Parsed oracle_json_accept)\<rparr>"


section \<open>The persistent store\<close>

text \<open>
  \<open>lib/supabase.ts\<close> with the tables of \<open>database.sql\<close>. The database is a
  collaborator; the model keeps the three tables, whether the client is configured, and
  for each database request of the module whether it fails: with an error message, or by
  returning no data. The lines that the module writes with \<open>console.error\<close> and
  \<open>console.warn\<close> on its failure paths are kept in \<open>console\<close> (the text after the
  leading pictograph, followed by the message that is printed with it). A timestamp
  (\<open>new Date().toISOString()\<close>) is a number read from a clock that the caller passes
  in. Result objects \<open>{success, ..., error}\<close> are sums, with
  the error message on the left.
\<close>

datatype status = Pending | Verified | Rejected

text \<open>The argument of \<open>saveContribution\<close>, and a row of the table \<open>contributions\<close>.\<close>

record StoredContribution =
  sc_user_address :: string
  sc_contribution_type :: string
  sc_score :: int
  sc_title :: string
  sc_description :: string
  sc_github_link :: string
  sc_github_analysis :: ContributionAnalysis
  sc_ai_result :: AIVerificationResult
  sc_status :: status
  sc_on_chain_tx :: "string option"

record ContributionRow =
  row_id :: string
  row_user_address :: string
  row_contribution_type :: string
  row_score :: int
  row_title :: string
  row_status :: status
  row_on_chain_tx :: "string option"
  row_verified_at :: "nat option"
  row_created_at :: nat
  row_updated_at :: nat
  row_payload :: StoredContribution

text \<open>\<open>UserTier\<close>, a row of \<open>user_tiers\<close> (unique in \<open>user_address\<close>).\<close>

record UserTier =
  ut_user_address :: string
  current_tier :: string
  total_score :: int
  builder_achieved_at :: "nat option"
  contributor_achieved_at :: "nat option"
  leader_achieved_at :: "nat option"
  ut_updated_at :: "nat option"

record ReputationRecord =
  rr_user_address :: string
  score_delta :: int
  rr_total_score :: int
  reason :: string

datatype db_request =
    InsertContribution
  | SelectPendingContributions
  | UpdateContribution
  | GetTierSelect
  | TierSelectExisting
  | TierUpdate
  | TierInsert
  | InsertHistory

datatype db_fault = DbError string | NoData

record Store =
  configured :: bool
  faults :: "db_request \<Rightarrow> db_fault option"
  contributions :: "ContributionRow list"
  user_tiers :: "string \<Rightarrow> UserTier option"
  reputation_history :: "ReputationRecord list"
  console :: "string list"

definition log_line :: "string \<Rightarrow> Store \<Rightarrow> Store" where
  "log_line l st = st\<lparr>console := console st @ [l]\<rparr>"





text \<open>
  \<open>updateUserTier\<close>. \<open>tierData\<close> holds the columns that are written; a field left
  \<open>undefined\<close> (\<open>None\<close>) is not sent, so an update keeps the stored value of that column
  and an insert stores \<open>null\<close>. The error of the first \<open>select\<close> is not looked at: a failed
  \<open>select\<close> reads as "no row". An insert for an address that has a row violates the
  unique constraint.
\<close>

record TierData =
  td_user_address :: string
  td_current_tier :: string
  td_total_score :: int
  td_updated_at :: nat
  td_builder_achieved_at :: "nat option"
  td_contributor_achieved_at :: "nat option"
  td_leader_achieved_at :: "nat option"

text \<open>\<open>existing?.field || now\<close>.\<close>

definition existing_or :: "UserTier option \<Rightarrow> (UserTier \<Rightarrow> nat option) \<Rightarrow> nat \<Rightarrow> nat" where
  "existing_or existing field now =
     (case existing of None \<Rightarrow> now
      | Some e \<Rightarrow> (case field e of None \<Rightarrow> now | Some t \<Rightarrow> t))"

definition tier_data :: "UserTier option \<Rightarrow> nat \<Rightarrow> string \<Rightarrow> int \<Rightarrow> string \<Rightarrow> TierData" where
  "tier_data existing now address newScore newTier =
     (let tierData = \<lparr>td_user_address = address, td_current_tier = newTier,
                       td_total_score = newScore, td_updated_at = now,
                       td_builder_achieved_at = None, td_contributor_achieved_at = None,
                       td_leader_achieved_at = None\<rparr>;
          tierData =
            (if newTier = ''BUILDER''
                \<and> (existing = None \<or> map_option current_tier existing = Some ''UNRANKED'')
             then tierData\<lparr>td_builder_achieved_at := Some now\<rparr> else tierData);
          tierData =
            (if newTier = ''CONTRIBUTOR''
                \<and> (existing = None \<or> map_option current_tier existing \<noteq> Some ''CONTRIBUTOR'')
             then tierData\<lparr>td_contributor_achieved_at := Some now,
                           td_builder_achieved_at :=
                             Some (existing_or existing builder_achieved_at now)\<rparr>
             else tierData);
          tierData =
            (if newTier = ''LEADER''
             then tierData\<lparr>td_leader_achieved_at := Some now,
                           td_contributor_achieved_at :=
                             Some (existing_or existing contributor_achieved_at now),
                           td_builder_achieved_at :=
                             Some (existing_or existing builder_achieved_at now)\<rparr>
             else tierData)
      in tierData)"

definition written_or_kept :: "nat option \<Rightarrow> nat option \<Rightarrow> nat option" where
  "written_or_kept written kept = (case written of None \<Rightarrow> kept | Some t \<Rightarrow> Some t)"

definition apply_tier_update :: "TierData \<Rightarrow> UserTier \<Rightarrow> UserTier" where
  "apply_tier_update td e =
     e\<lparr>ut_user_address := td_user_address td, current_tier := td_current_tier td,
       total_score := td_total_score td, ut_updated_at := Some (td_updated_at td),
       builder_achieved_at := written_or_kept (td_builder_achieved_at td) (builder_achieved_at e),
       contributor_achieved_at :=
         written_or_kept (td_contributor_achieved_at td) (contributor_achieved_at e),
       leader_achieved_at := written_or_kept (td_leader_achieved_at td) (leader_achieved_at e)\<rparr>"

definition tier_row_of :: "TierData \<Rightarrow> UserTier" where
  "tier_row_of td =
     \<lparr>ut_user_address = td_user_address td, current_tier = td_current_tier td,
      total_score = td_total_score td, builder_achieved_at = td_builder_achieved_at td,
      contributor_achieved_at = td_contributor_achieved_at td,
      leader_achieved_at = td_leader_achieved_at td,
      ut_updated_at = Some (td_updated_at td)\<rparr>"

text \<open>The messages of the database for a \<open>single()\<close> without a row and for a duplicate key.\<close>

definition no_rows_message :: string where
  "no_rows_message = ''JSON object requested, multiple (or no) rows returned''"

definition duplicate_key_message :: string where
  "duplicate_key_message = ''duplicate key value violates unique constraint''"

definition updateUserTier ::
  "Store \<Rightarrow> nat \<Rightarrow> string \<Rightarrow> int \<Rightarrow> string \<Rightarrow> (string + UserTier) \<times> Store" where
  "updateUserTier st now userAddress newScore newTier =
     (if \<not> configured st then (Inl ''Supabase not configured'', st)
      else
        (let address = toLowerCase userAddress;
             existing = (case faults st TierSelectExisting of
                           None \<Rightarrow> user_tiers st address
                         | Some f \<Rightarrow> None);
             tierData = tier_data existing now address newScore newTier
         in case existing of
              Some e \<Rightarrow>
                (case faults st TierUpdate of
                   Some (DbError m) \<Rightarrow> (Inl m, log_line (''Error updating tier: '' @ m) st)
                 | Some NoData \<Rightarrow>
                     (Inl no_rows_message, log_line (''Error updating tier: '' @ no_rows_message) st)
                 | None \<Rightarrow>
                    (let row = apply_tier_update tierData e
                     in (Inr row, st\<lparr>user_tiers := (user_tiers st)(address \<mapsto> row)\<rparr>)))
            | None \<Rightarrow>
                (case faults st TierInsert of
                   Some (DbError m) \<Rightarrow> (Inl m, log_line (''Error updating tier: '' @ m) st)
                 | Some NoData \<Rightarrow>
                     (Inl no_rows_message, log_line (''Error updating tier: '' @ no_rows_message) st)
                 | None \<Rightarrow>
                    (if user_tiers st address \<noteq> None
                     then (Inl duplicate_key_message,
                           log_line (''Error updating tier: '' @ duplicate_key_message) st)
                     else
                       (let row = tier_row_of tierData
                        in (Inr row, st\<lparr>user_tiers := (user_tiers st)(address \<mapsto> row)\<rparr>))))))"



text \<open>A store with one user who reached the LEADER tier at instant 1000.\<close>

definition leader_row :: UserTier where
  "leader_row =
     \<lparr>ut_user_address = ''0x52908400098527886e0f7030069857d2e4169ee7'',
      current_tier = ''LEADER'', total_score = 700, builder_achieved_at = Some 200,
      contributor_achieved_at = Some 600, leader_achieved_at = Some 1000,
      ut_updated_at = Some 1000\<rparr>"

definition store_with_leader :: Store where
  "store_with_leader =
     \<lparr>configured = True, faults = (\<lambda>q. None), contributions = [],
      user_tiers = [''0x52908400098527886e0f7030069857d2e4169ee7'' \<mapsto> leader_row],
      reputation_history = [], console = []\<rparr>"

section \<open>The submission handler\<close>


















section \<open>The client-side submission flow\<close>




















section \<open>Properties of the badge token identifier\<close>

lemma length_toHex: "length (toHex s) = 2 * length s"
  by (induction s) (simp_all add: toHex_def byte_hex_def)

lemma toHex_append: "toHex (a @ b) = toHex a @ toHex b"
  by (simp add: toHex_def)

lemma length_toLowerCase: "length (toLowerCase s) = length s"
  by (simp add: toLowerCase_def)

text \<open>
  An address is 42 characters long, so the 32 bytes that survive the slice all come from
  the address: the agent-side identifier ignores the tier.
\<close>

lemma generateBadgeTokenId_ignores_tier:
  "32 \<le> length a \<Longrightarrow> generateBadgeTokenId a t = generateBadgeTokenId a t'"
  by (simp add: generateBadgeTokenId_def toHex_append length_toHex length_toLowerCase)

text \<open>
  C7. The claim: the badge token identifier is derived from the address concatenated with
  the tier, so that it depends on the tier and on the full address, and the agent-side and
  the client-side generator produce the identical identifier. Evaluated at the address
  \<open>0x52908400098527886e0f7030069857d2e4169ee7\<close>: the agent-side identifier is the same for
  BUILDER and for LEADER, it is the same for a second address that differs in the last
  digit only, and it differs from the client-side identifier for the same address and tier.
\<close>

theorem badge_token_id_ignores_tier_and_address_tail:
  "generateBadgeTokenId ''0x52908400098527886e0f7030069857d2e4169ee7'' BUILDER
     = generateBadgeTokenId ''0x52908400098527886e0f7030069857d2e4169ee7'' LEADER
   \<and> generateBadgeTokenId ''0x52908400098527886e0f7030069857d2e4169ee7'' BUILDER
     = generateBadgeTokenId ''0x52908400098527886e0f7030069857d2e4169ee8'' BUILDER
   \<and> generateBadgeTokenId ''0x52908400098527886e0f7030069857d2e4169ee7'' BUILDER
     \<noteq> generateBadgeTokenId_minting ''0x52908400098527886e0f7030069857d2e4169ee7'' ''BUILDER''
   \<and> generateBadgeTokenId ''0x52908400098527886e0f7030069857d2e4169ee7'' BUILDER \<noteq> None"
  by (simp add: generateBadgeTokenId_def generateBadgeTokenId_minting_def toLowerCase_def
      lower_char_def toHex_def byte_hex_def hex_digit_def BigInt_hex_def hex_val_def)

section \<open>Properties of the on-chain execution sequence\<close>













section \<open>Properties of the score calculator\<close>














section \<open>Properties of the advisory verifier\<close>









text \<open>
  C1, amended: for every activity signal that records no ecosystem contribution
  (\<open>hasCeloContribution\<close> is false, which \<open>analyzeGitHubLink\<close> sets when it found no
  ecosystem repository), whatever the environment, the verifier returns an opinion with
  \<open>authentic\<close> true, impact, quality, authenticity and final score all 0 and
  recommendation reject, without issuing the request to the oracle; the score calculator
  awards 0 for it.
\<close>

theorem no_ecosystem_repository_rejected:
  assumes "\<not> hasCeloContribution a"
  shows "\<exists>r. verifyWithAI env a t = (Some r, False)
           \<and> authentic r \<and> impactScore r = 0 \<and> qualityScore r = 0 \<and> authenticity r = 0
           \<and> finalScore r = 0 \<and> recommendation r = ''reject''
           \<and> calculateFinalScore r b w = 0"
  using assms
  by (simp add: verifyWithAI_def generateDefaultVerification_def calculateFinalScore_def)

text \<open>
  The amended C1 on a signal without ecosystem repositories, in an environment that has an
  API key and an oracle that would accept.
\<close>

theorem no_ecosystem_repository_rejected_witness:
  "\<not> hasCeloContribution analysis_no_repos
   \<and> truthy (GEMINI_API_KEY env_oracle_accepts)
   \<and> snd (verifyWithAI env_oracle_accepts analysis_no_repos ''COMMIT'') = False
   \<and> map_option recommendation (fst (verifyWithAI env_oracle_accepts analysis_no_repos ''COMMIT''))
       = Some ''reject''
   \<and> map_option finalScore (fst (verifyWithAI env_oracle_accepts analysis_no_repos ''COMMIT''))
       = Some 0"
proof -
  have h: "\<not> hasCeloContribution analysis_no_repos"
    by (simp add: analysis_no_repos_def analysis_of_def)
  have k: "truthy (GEMINI_API_KEY env_oracle_accepts)"
    by (simp add: env_oracle_accepts_def truthy_def)
  from no_ecosystem_repository_rejected [OF h, of env_oracle_accepts "''COMMIT''" 10 True]
  obtain r where "verifyWithAI env_oracle_accepts analysis_no_repos ''COMMIT'' = (Some r, False)"
    and "recommendation r = ''reject''" and "finalScore r = 0"
    by blast
  then show ?thesis using h k by simp
qed

text \<open>
  C1, as the claim states it: every signal whose total ecosystem commit count is 0 gets
  the all-zero reject opinion and the oracle is not consulted. A signal with one ecosystem
  repository and no commit in it has commit count 0; without an API key the fallback
  formula accepts it with impact 100 and final score 90, and with an API key the oracle
  is consulted.
\<close>

theorem zero_commits_not_rejected:
  "celoContributionCount analysis_zero_commits = 0
   \<and> map_option recommendation (fst (verifyWithAI env_no_key analysis_zero_commits ''PR_MERGED''))
       = Some ''accept''
   \<and> map_option impactScore (fst (verifyWithAI env_no_key analysis_zero_commits ''PR_MERGED''))
       = Some 100
   \<and> map_option finalScore (fst (verifyWithAI env_no_key analysis_zero_commits ''PR_MERGED''))
       = Some 90
   \<and> map_option authentic (fst (verifyWithAI env_no_key analysis_zero_commits ''PR_MERGED''))
       = Some False
   \<and> snd (verifyWithAI env_oracle_accepts analysis_zero_commits ''PR_MERGED'') = True"
  by code_simp




section \<open>Properties of the tier state\<close>

text \<open>Every successful update to the LEADER tier writes the current instant.\<close>

lemma updateUserTier_leader_now:
  "updateUserTier st now a s ''LEADER'' = (Inr row, st') \<Longrightarrow> leader_achieved_at row = Some now"
  by (auto simp: updateUserTier_def tier_data_def Let_def apply_tier_update_def tier_row_of_def
        written_or_kept_def split: option.splits db_fault.splits if_splits)

text \<open>
  C9. The claim: an achievement timestamp, once set, is never overwritten by a later
  update (\<open>newTimestamp = existing ?? now\<close>). Evaluated for a user who reached LEADER
  at instant 1000 and whose tier is updated again, to LEADER with total 730, at instant
  2000: the stored \<open>leader_achieved_at\<close> becomes 2000, while \<open>contributor_achieved_at\<close>
  keeps its value 600.
\<close>

theorem leader_timestamp_overwritten:
  "map_option leader_achieved_at
     (user_tiers store_with_leader ''0x52908400098527886e0f7030069857d2e4169ee7'')
     = Some (Some 1000)
   \<and> map_option leader_achieved_at
       (user_tiers
          (snd (updateUserTier store_with_leader 2000
                  ''0x52908400098527886E0F7030069857D2E4169EE7'' 730 ''LEADER''))
          ''0x52908400098527886e0f7030069857d2e4169ee7'')
     = Some (Some 2000)
   \<and> map_option contributor_achieved_at
       (user_tiers
          (snd (updateUserTier store_with_leader 2000
                  ''0x52908400098527886E0F7030069857D2E4169EE7'' 730 ''LEADER''))
          ''0x52908400098527886e0f7030069857d2e4169ee7'')
     = Some (Some 600)"
  by (simp add: updateUserTier_def store_with_leader_def leader_row_def tier_data_def Let_def
      apply_tier_update_def written_or_kept_def existing_or_def toLowerCase_def lower_char_def)

section \<open>Properties of the submission handler, the store and the client\<close>

lemma lower_char_idem: "lower_char (lower_char c) = lower_char c"
  by (auto simp: lower_char_def split: option.splits if_splits)

lemma toLowerCase_idem: "toLowerCase (toLowerCase s) = toLowerCase s"
  by (simp add: toLowerCase_def lower_char_idem)

lemma lower_upper_char: "lower_char (upper_char c) = lower_char c"
  by (auto simp: lower_char_def upper_char_def split: option.splits if_splits)

lemma toLowerCase_toUpperCase: "toLowerCase (toUpperCase s) = toLowerCase s"
  by (simp add: toLowerCase_def toUpperCase_def lower_upper_char)







































end
